theory Spec2Isabelle
  imports Main "HOL-Library.AList"
begin

section \<open>The Result type (Result.ts)\<close>

text \<open>
  A \<open>Result<A, E>\<close> is a tagged union: a \<open>Success\<close> holds \<open>value\<close> (here \<open>val\<close>) and
  \<open>timestamp\<close>, a \<open>Failure\<close> holds \<open>cause\<close>. The timestamp is a JavaScript number holding
  milliseconds since the epoch; it is modelled as an integer.

  \<open>Date.now()\<close> reads the wall clock. Every function below that may reach \<open>Date.now()\<close>
  takes the clock reading as its parameter \<open>now\<close>; each of them reads the clock at most
  once per call.
\<close>

type_synonym timestamp = int

datatype ('a, 'c) result =
    Success (val: 'a) (timestamp: timestamp)
  | Failure (cause: 'c)

text \<open>The outcome of the runtime (\<open>Exit.Exit<A, E>\<close>): a value or a cause.\<close>

datatype ('a, 'c) exit =
    ExitSuccess 'a
  | ExitFailure 'c

text \<open>
  \<open>success(value, options?)\<close>: \<open>result.timestamp = options?.timestamp ?? Date.now()\<close>.
  The options are modelled by the optional timestamp they carry (\<open>None\<close> when \<open>options\<close>
  or its \<open>timestamp\<close> is undefined).
\<close>

definition success :: "timestamp \<Rightarrow> 'a \<Rightarrow> timestamp option \<Rightarrow> ('a, 'c) result" where
  "success now v options =
     Success v (case options of Some t \<Rightarrow> t | None \<Rightarrow> now)"

definition failure :: "'c \<Rightarrow> ('a, 'c) result" where
  "failure c = Failure c"

text \<open>The discriminant \<open>_tag\<close>, and the guards that compare it.\<close>

definition tag_of :: "('a, 'c) result \<Rightarrow> string" where
  "tag_of r = (case r of Success _ _ \<Rightarrow> ''Success'' | Failure _ \<Rightarrow> ''Failure'')"

definition isSuccess :: "('a, 'c) result \<Rightarrow> bool" where
  "isSuccess r = (tag_of r = ''Success'')"

definition isFailure :: "('a, 'c) result \<Rightarrow> bool" where
  "isFailure r = (tag_of r = ''Failure'')"

definition fromExit :: "timestamp \<Rightarrow> ('a, 'c) exit \<Rightarrow> ('a, 'c) result" where
  "fromExit now ex =
     (case ex of ExitSuccess v \<Rightarrow> success now v None | ExitFailure c \<Rightarrow> failure c)"

definition fromExitWithPrevious ::
  "timestamp \<Rightarrow> ('a, 'c) exit \<Rightarrow> ('a, 'c) result option \<Rightarrow> ('a, 'c) result" where
  "fromExitWithPrevious now ex previous =
     (case ex of ExitSuccess v \<Rightarrow> success now v None | ExitFailure c \<Rightarrow> failure c)"

text \<open>\<open>value(self)\<close>: the success value as an option.\<close>

definition value_of :: "('a, 'c) result \<Rightarrow> 'a option" where
  "value_of self = (case self of Success v _ \<Rightarrow> Some v | Failure _ \<Rightarrow> None)"

text \<open>
  \<open>map(self, f)\<close>: a failure is rebuilt from its cause; a success is rebuilt with
  \<open>success(f(self.value), self)\<close>, where \<open>self\<close> serves as the options object, so that
  \<open>options.timestamp\<close> is the timestamp of \<open>self\<close>.
\<close>

definition map_Result :: "timestamp \<Rightarrow> ('a \<Rightarrow> 'b) \<Rightarrow> ('a, 'c) result \<Rightarrow> ('b, 'c) result" where
  "map_Result now f self =
     (case self of
        Failure c \<Rightarrow> failure c
      | Success v t \<Rightarrow> success now (f v) (Some t))"

text \<open>
  \<open>getOrElse(self, orElse)\<close> is \<open>Option.getOrElse(value(self), orElse)\<close>, which calls
  \<open>orElse()\<close> only when the option is none. The fallback is a thunk that may have
  effects; it is modelled as a function on a state \<open>'s\<close> of the surrounding world. A
  thunk that is not called leaves that state as it is.
\<close>

definition getOrElse :: "('a, 'c) result \<Rightarrow> ('s \<Rightarrow> 'a \<times> 's) \<Rightarrow> 's \<Rightarrow> 'a \<times> 's" where
  "getOrElse self orElse s =
     (case value_of self of None \<Rightarrow> orElse s | Some a \<Rightarrow> (a, s))"

text \<open>
  The structural equality of results (\<open>ResultProto[Equal.symbol]\<close>). \<open>Equal.equals\<close>
  belongs to the effect library; its instances on values and on causes are the parameters
  \<open>eqv\<close> and \<open>eqc\<close>. The fields of \<open>that\<close> are read only after the tags were found equal.
\<close>

definition equals_Result ::
  "('a \<Rightarrow> 'a \<Rightarrow> bool) \<Rightarrow> ('c \<Rightarrow> 'c \<Rightarrow> bool) \<Rightarrow> ('a, 'c) result \<Rightarrow> ('a, 'c) result \<Rightarrow> bool" where
  "equals_Result eqv eqc this that =
     (if tag_of this \<noteq> tag_of that then False
      else (case this of
              Success v _ \<Rightarrow> eqv v (val that)
            | Failure c \<Rightarrow> eqc c (cause that)))"

text \<open>
  JavaScript numbers, as far as their equality matters: \<open>NaN\<close> and the other numbers.
  On two numbers \<open>Equal.equals\<close> of the effect library is the comparison \<open>===\<close>, under
  which \<open>NaN\<close> differs from every number, itself included.
\<close>

datatype number = NaN | Finite int

definition equals_number :: "number \<Rightarrow> number \<Rightarrow> bool" where
  "equals_number x y =
     (case x of
        NaN \<Rightarrow> False
      | Finite m \<Rightarrow> (case y of NaN \<Rightarrow> False | Finite n \<Rightarrow> m = n))"

section \<open>Causes\<close>

text \<open>
  Modelled from the spec: the cause type and its inspection functions
  (\<open>Cause.failureOption\<close>, \<open>Cause.dieOption\<close>, \<open>Cause.isInterruptedOnly\<close>) belong to the
  effect library and are not part of the repository's sources. Section 3 of the
  specification gives a cause as a typed failure, an interruption, a defect, or a
  sequential or parallel composition of causes, from which the core extracts the first
  typed failure, the first defect, and whether it is made of interruptions only. The
  empty cause, the unit of the two compositions, is included as well.
\<close>

datatype ('e, 'd) cause =
    Empty
  | Fail 'e
  | Die 'd
  | Interrupt
  | Sequential "('e, 'd) cause" "('e, 'd) cause"
  | Parallel "('e, 'd) cause" "('e, 'd) cause"

text \<open>
  Modelled from the spec: \<open>Cause.failureOption\<close> of the effect library, the first typed
  failure of a cause, if any.
\<close>

fun failureOption :: "('e, 'd) cause \<Rightarrow> 'e option" where
  "failureOption Empty = None"
| "failureOption (Fail e) = Some e"
| "failureOption (Die d) = None"
| "failureOption Interrupt = None"
| "failureOption (Sequential l r) =
     (case failureOption l of Some e \<Rightarrow> Some e | None \<Rightarrow> failureOption r)"
| "failureOption (Parallel l r) =
     (case failureOption l of Some e \<Rightarrow> Some e | None \<Rightarrow> failureOption r)"

text \<open>
  Modelled from the spec: \<open>Cause.dieOption\<close> of the effect library, the first defect of a
  cause, if any.
\<close>

fun dieOption :: "('e, 'd) cause \<Rightarrow> 'd option" where
  "dieOption Empty = None"
| "dieOption (Fail e) = None"
| "dieOption (Die d) = Some d"
| "dieOption Interrupt = None"
| "dieOption (Sequential l r) =
     (case dieOption l of Some d \<Rightarrow> Some d | None \<Rightarrow> dieOption r)"
| "dieOption (Parallel l r) =
     (case dieOption l of Some d \<Rightarrow> Some d | None \<Rightarrow> dieOption r)"

text \<open>
  Modelled from the spec: \<open>Cause.isInterruptedOnly\<close> of the effect library, whether the
  cause is made of interruptions only.
\<close>

fun isInterruptedOnly :: "('e, 'd) cause \<Rightarrow> bool" where
  "isInterruptedOnly Empty = True"
| "isInterruptedOnly (Fail e) = False"
| "isInterruptedOnly (Die d) = False"
| "isInterruptedOnly Interrupt = True"
| "isInterruptedOnly (Sequential l r) = (isInterruptedOnly l \<and> isInterruptedOnly r)"
| "isInterruptedOnly (Parallel l r) = (isInterruptedOnly l \<and> isInterruptedOnly r)"

text \<open>All typed failures and all defects of a cause, from left to right.\<close>

fun failures :: "('e, 'd) cause \<Rightarrow> 'e list" where
  "failures Empty = []"
| "failures (Fail e) = [e]"
| "failures (Die d) = []"
| "failures Interrupt = []"
| "failures (Sequential l r) = failures l @ failures r"
| "failures (Parallel l r) = failures l @ failures r"

fun defects :: "('e, 'd) cause \<Rightarrow> 'd list" where
  "defects Empty = []"
| "defects (Fail e) = []"
| "defects (Die d) = [d]"
| "defects Interrupt = []"
| "defects (Sequential l r) = defects l @ defects r"
| "defects (Parallel l r) = defects l @ defects r"

text \<open>\<open>isInterrupted(result)\<close>: a failure whose cause is interruption only.\<close>

definition isInterrupted :: "('a, ('e, 'd) cause) result \<Rightarrow> bool" where
  "isInterrupted r = (tag_of r = ''Failure'' \<and> isInterruptedOnly (cause r))"

section \<open>Combining results: \<open>all\<close>\<close>

text \<open>
  The argument of \<open>all\<close> is an iterable or a record whose entries are results
  (\<open>isResult\<close> holds: the object carries the \<open>TypeId\<close> property) or plain values. A
  record is given by its own enumerable string-keyed properties in the order of
  \<open>Object.entries\<close>.
\<close>

datatype ('a, 'c) entry =
    IsResult "('a, 'c) result"
  | Plain 'a

datatype ('a, 'c) arg =
    Iterable "('a, 'c) entry list"
  | Record "(string \<times> ('a, 'c) entry) list"

datatype key = Index nat | Name string

text \<open>
  The collection \<open>successes\<close> is a JavaScript array (\<open>[]\<close>) or object (\<open>{}\<close>): its
  prototype (\<open>None\<close> while it is the one the literal gave it) and the list of its own
  properties, keyed by indices for an array.

  \<open>successes[key] = v\<close> replaces the own property \<open>key\<close> when it exists and adds it at
  the end otherwise, for every key but \<open>__proto__\<close>. That name is an accessor inherited
  from \<open>Object.prototype\<close>: the assignment runs its setter, which makes \<open>v\<close> the prototype
  of \<open>successes\<close> when \<open>v\<close> is an object or \<open>null\<close> and does nothing otherwise; in neither
  case does it create a property. Whether a value is an object or \<open>null\<close> is the parameter
  \<open>isObj\<close>.
\<close>

datatype 'a collection =
  Collection (is_array: bool) (proto: "'a option") (props: "(key \<times> 'a) list")

definition assign :: "('a \<Rightarrow> bool) \<Rightarrow> 'a collection \<Rightarrow> key \<Rightarrow> 'a \<Rightarrow> 'a collection" where
  "assign isObj successes k v =
     (if k = Name ''__proto__'' then
        (if isObj v then Collection (is_array successes) (Some v) (props successes)
         else successes)
      else Collection (is_array successes) (proto successes)
             (AList.update k v (props successes)))"

definition isIterable :: "('a, 'c) arg \<Rightarrow> bool" where
  "isIterable results = (case results of Iterable _ \<Rightarrow> True | Record _ \<Rightarrow> False)"

text \<open>
  \<open>Array.from(results, (result, i) => [i, result])\<close> for an iterable and
  \<open>Object.entries(results)\<close> for a record.
\<close>

definition entries_of :: "('a, 'c) arg \<Rightarrow> (key \<times> ('a, 'c) entry) list" where
  "entries_of results =
     (case results of
        Iterable xs \<Rightarrow> map (\<lambda>(i, r). (Index i, r)) (List.enumerate 0 xs)
      | Record kvs \<Rightarrow> map (\<lambda>(k, r). (Name k, r)) kvs)"

text \<open>
  The loop over \<open>entries\<close>. An entry is a pair, hence never falsy, so that
  \<open>if (!entry) continue\<close> never skips one. A failure is returned as it is; the loop
  stops there.
\<close>

fun all_loop ::
  "('a \<Rightarrow> bool) \<Rightarrow> timestamp \<Rightarrow> (key \<times> ('a, 'c) entry) list \<Rightarrow> 'a collection \<Rightarrow>
   ('a collection, 'c) result" where
  "all_loop isObj now [] successes = success now successes None"
| "all_loop isObj now ((k, Plain v) # entries) successes =
     all_loop isObj now entries (assign isObj successes k v)"
| "all_loop isObj now ((k, IsResult (Failure c)) # entries) successes = Failure c"
| "all_loop isObj now ((k, IsResult (Success v t)) # entries) successes =
     all_loop isObj now entries (assign isObj successes k v)"

definition all_results ::
  "('a \<Rightarrow> bool) \<Rightarrow> timestamp \<Rightarrow> ('a, 'c) arg \<Rightarrow> ('a collection, 'c) result" where
  "all_results isObj now results =
     (let isIter = isIterable results;
          entries = entries_of results;
          successes = (if isIter then Collection True None [] else Collection False None [])
      in all_loop isObj now entries successes)"

text \<open>
  The words of the specification, on the entries as the caller gives them: the cause of
  the first failure in iteration order, and what an entry contributes to the combined
  collection (the value of a successful result, a plain value as it is, nothing for a
  failure).
\<close>

fun first_failure :: "('a, 'c) entry list \<Rightarrow> 'c option" where
  "first_failure [] = None"
| "first_failure (IsResult (Failure c) # es) = Some c"
| "first_failure (e # es) = first_failure es"

fun entry_value :: "('a, 'c) entry \<Rightarrow> 'a option" where
  "entry_value (Plain v) = Some v"
| "entry_value (IsResult (Success v t)) = Some v"
| "entry_value (IsResult (Failure c)) = None"

fun values_of :: "('k \<times> ('a, 'c) entry) list \<Rightarrow> ('k \<times> 'a) list" where
  "values_of [] = []"
| "values_of ((k, e) # es) =
     (case entry_value e of Some v \<Rightarrow> (k, v) # values_of es | None \<Rightarrow> values_of es)"

text \<open>
  The array literal \<open>[x0, x1, ...]\<close> and the object literal with the given properties,
  each with the prototype the literal gives it.
\<close>

definition js_array :: "'a list \<Rightarrow> 'a collection" where
  "js_array xs = Collection True None (map (\<lambda>(i, x). (Index i, x)) (List.enumerate 0 xs))"

definition js_object :: "(string \<times> 'a) list \<Rightarrow> 'a collection" where
  "js_object kvs = Collection False None (map (\<lambda>(k, x). (Name k, x)) kvs)"

text \<open>
  Sample values for the examples: \<open>null\<close>, numbers, and objects with number-valued
  properties.
\<close>

datatype js_value = JNull | JNumber int | JObject "(string \<times> int) list"

fun isObjectOrNull :: "js_value \<Rightarrow> bool" where
  "isObjectOrNull JNull = True"
| "isObjectOrNull (JNumber n) = False"
| "isObjectOrNull (JObject ps) = True"

section \<open>The builder\<close>

text \<open>
  \<open>BuilderImpl\<close> holds the result it was built from and the mutable field \<open>output\<close>
  (here \<open>output_slot\<close>), initially none. Every clause returns \<open>this\<close>. Handlers are
  caller-supplied functions that may have effects: a handler takes its arguments and a
  state \<open>'s\<close> of the surrounding world and returns its output and the new state, so that
  a handler that is not invoked leaves the state as it is. A clause maps the pair of the
  builder and the world to the new pair.
\<close>

record ('a, 'c, 'out) BuilderImpl =
  result :: "('a, 'c) result"
  output_slot :: "'out option"

definition builder :: "('a, 'c) result \<Rightarrow> ('a, 'c, 'out) BuilderImpl" where
  "builder self = \<lparr>result = self, output_slot = None\<rparr>"

definition when_clause ::
  "(('a, 'c) result \<Rightarrow> bool) \<Rightarrow> (('a, 'c) result \<Rightarrow> 's \<Rightarrow> 'out option \<times> 's) \<Rightarrow>
   ('a, 'c, 'out) BuilderImpl \<times> 's \<Rightarrow> ('a, 'c, 'out) BuilderImpl \<times> 's" where
  "when_clause refinement f bs =
     (case bs of (this, s) \<Rightarrow>
        if output_slot this = None \<and> refinement (result this) then
          (case f (result this) s of
             (Some c, s') \<Rightarrow> (this\<lparr>output_slot := Some c\<rparr>, s')
           | (None, s') \<Rightarrow> (this, s'))
        else (this, s))"

definition onSuccess ::
  "('a \<Rightarrow> ('a, 'c) result \<Rightarrow> 's \<Rightarrow> 'out \<times> 's) \<Rightarrow>
   ('a, 'c, 'out) BuilderImpl \<times> 's \<Rightarrow> ('a, 'c, 'out) BuilderImpl \<times> 's" where
  "onSuccess f =
     when_clause isSuccess (\<lambda>r s. case f (val r) r s of (b, s') \<Rightarrow> (Some b, s'))"

definition onFailure ::
  "('c \<Rightarrow> ('a, 'c) result \<Rightarrow> 's \<Rightarrow> 'out \<times> 's) \<Rightarrow>
   ('a, 'c, 'out) BuilderImpl \<times> 's \<Rightarrow> ('a, 'c, 'out) BuilderImpl \<times> 's" where
  "onFailure f =
     when_clause isFailure (\<lambda>r s. case f (cause r) r s of (b, s') \<Rightarrow> (Some b, s'))"

text \<open>\<open>Option.filter\<close> of the effect library.\<close>

definition Option_filter :: "('x \<Rightarrow> bool) \<Rightarrow> 'x option \<Rightarrow> 'x option" where
  "Option_filter p opt =
     (case opt of None \<Rightarrow> None | Some x \<Rightarrow> if p x then Some x else None)"

definition onErrorIf ::
  "('e \<Rightarrow> bool) \<Rightarrow> ('e \<Rightarrow> ('a, ('e, 'd) cause) result \<Rightarrow> 's \<Rightarrow> 'out \<times> 's) \<Rightarrow>
   ('a, ('e, 'd) cause, 'out) BuilderImpl \<times> 's \<Rightarrow> ('a, ('e, 'd) cause, 'out) BuilderImpl \<times> 's" where
  "onErrorIf refinement f =
     when_clause isFailure
       (\<lambda>res s. case Option_filter refinement (failureOption (cause res)) of
                  None \<Rightarrow> (None, s)
                | Some e \<Rightarrow> (case f e res s of (c, s') \<Rightarrow> (Some c, s')))"

definition onError ::
  "('e \<Rightarrow> ('a, ('e, 'd) cause) result \<Rightarrow> 's \<Rightarrow> 'out \<times> 's) \<Rightarrow>
   ('a, ('e, 'd) cause, 'out) BuilderImpl \<times> 's \<Rightarrow> ('a, ('e, 'd) cause, 'out) BuilderImpl \<times> 's" where
  "onError f = onErrorIf (\<lambda>_. True) f"

definition onDefect ::
  "('d \<Rightarrow> ('a, ('e, 'd) cause) result \<Rightarrow> 's \<Rightarrow> 'out \<times> 's) \<Rightarrow>
   ('a, ('e, 'd) cause, 'out) BuilderImpl \<times> 's \<Rightarrow> ('a, ('e, 'd) cause, 'out) BuilderImpl \<times> 's" where
  "onDefect f =
     when_clause isFailure
       (\<lambda>res s. case dieOption (cause res) of
                  None \<Rightarrow> (None, s)
                | Some d \<Rightarrow> (case f d res s of (b, s') \<Rightarrow> (Some b, s')))"

text \<open>The terminal operations. \<open>null\<close> is \<open>None\<close>; a thrown fault is \<open>Inl\<close>.\<close>

definition orElse :: "('a, 'c, 'out) BuilderImpl \<times> 's \<Rightarrow> ('s \<Rightarrow> 'out \<times> 's) \<Rightarrow> 'out \<times> 's" where
  "orElse bs fallback =
     (case bs of (this, s) \<Rightarrow>
        (case output_slot this of None \<Rightarrow> fallback s | Some v \<Rightarrow> (v, s)))"

definition orNull :: "('a, 'c, 'out) BuilderImpl \<Rightarrow> 'out option" where
  "orNull this = output_slot this"

text \<open>
  \<open>render()\<close> throws \<open>Cause.squash(this.result.cause)\<close> for an unmatched failure.
  \<open>Cause.squash\<close> belongs to the effect library; it is the parameter \<open>squash\<close>, which
  turns the cause into the value that is thrown.
\<close>

definition render ::
  "('c \<Rightarrow> 'f) \<Rightarrow> ('a, 'c, 'out) BuilderImpl \<Rightarrow> 'f + 'out option" where
  "render squash this =
     (case output_slot this of
        Some v \<Rightarrow> Inr (Some v)
      | None \<Rightarrow>
          if isFailure (result this) then Inl (squash (cause (result this)))
          else Inr None)"

text \<open>
  A handler that records its invocation: it appends its name to a log and returns a
  fixed output.
\<close>

definition logging :: "string \<Rightarrow> 'out \<Rightarrow> 'x \<Rightarrow> 'r \<Rightarrow> string list \<Rightarrow> 'out \<times> string list" where
  "logging name out x r log = (out, log @ [name])"

definition logging_thunk :: "string \<Rightarrow> 'out \<Rightarrow> string list \<Rightarrow> 'out \<times> string list" where
  "logging_thunk name out log = (out, log @ [name])"

definition capturing ::
  "string \<Rightarrow> 'out \<Rightarrow> 'r \<Rightarrow> string list \<Rightarrow> 'out option \<times> string list" where
  "capturing name out r log = (Some out, log @ [name])"

section \<open>The serialization schema\<close>




















section \<open>The client's shared runtime (HttpBridge.ts)\<close>

text \<open>
  \<open>Tag\<close> creates one variable \<open>runtimePromise\<close> per client, initially undefined.
  \<open>getRuntime\<close> runs synchronously: when the variable is undefined it starts the
  initialization (\<open>Layer.toRuntime(...)\<close> run with \<open>Effect.runPromise\<close>, which gives a new
  pending promise) and stores the promise; it returns the stored promise. JavaScript runs
  one callback at a time, so the calls of the concurrent callers and the settling of the
  promise by the runtime form a sequence of events. A promise is an object of the store
  \<open>promises\<close>, referred to by its position.
\<close>

datatype ('rt, 'x) promise = Pending | Fulfilled 'rt | Rejected 'x

record ('rt, 'x) client =
  runtimePromise :: "nat option"
  promises :: "('rt, 'x) promise list"

definition new_client :: "('rt, 'x) client" where
  "new_client = \<lparr>runtimePromise = None, promises = []\<rparr>"

definition getRuntime :: "('rt, 'x) client \<Rightarrow> nat \<times> ('rt, 'x) client" where
  "getRuntime st =
     (case runtimePromise st of
        None \<Rightarrow>
          (let p = length (promises st)
           in (p, st\<lparr>runtimePromise := Some p, promises := promises st @ [Pending]\<rparr>))
      | Some p \<Rightarrow> (p, st))"

text \<open>The runtime settles a pending promise, once.\<close>

definition settle :: "nat \<Rightarrow> ('rt, 'x) promise \<Rightarrow> ('rt, 'x) client \<Rightarrow> ('rt, 'x) client" where
  "settle p outcome st =
     (if p < length (promises st) \<and> promises st ! p = Pending
      then st\<lparr>promises := (promises st)[p := outcome]\<rparr>
      else st)"

datatype ('rt, 'x) event = Call | Settle nat "('rt, 'x) promise"

text \<open>
  Running a sequence of events: the promises returned to the callers, in the order of
  their calls (\<open>query\<close> and \<open>mutation\<close> both start with \<open>await getRuntime()\<close>), and the
  final state.
\<close>

fun run :: "('rt, 'x) event list \<Rightarrow> ('rt, 'x) client \<Rightarrow> nat list \<times> ('rt, 'x) client" where
  "run [] st = ([], st)"
| "run (Call # evs) st =
     (case getRuntime st of (p, st') \<Rightarrow>
        (case run evs st' of (ps, st'') \<Rightarrow> (p # ps, st'')))"
| "run (Settle p outcome # evs) st = run evs (settle p outcome st)"

definition calls :: "('rt, 'x) event list \<Rightarrow> nat" where
  "calls evs = length (filter (\<lambda>ev. case ev of Call \<Rightarrow> True | Settle _ _ \<Rightarrow> False) evs)"

text \<open>
  The state of a client whose initialization was started: the variable refers to the one
  promise of the store.
\<close>

definition started :: "('rt, 'x) client \<Rightarrow> bool" where
  "started st \<longleftrightarrow> runtimePromise st = Some 0 \<and> length (promises st) = 1"

section \<open>Properties of the Result core\<close>

text \<open>
  Claim C4. For every value \<open>a\<close>, function \<open>f\<close> and cause \<open>c\<close>: mapping a success built from
  \<open>a\<close> gives the success built from \<open>f a\<close> under the same options and clock reading, and
  the new success carries the timestamp of the original one whatever the clock shows when
  \<open>map\<close> runs; mapping a failure gives the failure with the same cause.
\<close>

theorem map_Result_spec:
  "map_Result now' f (success now a options) = success now (f a) options
   \<and> map_Result now' f (Success a t) = Success (f a) t
   \<and> timestamp (map_Result now' f (Success a t)) = t
   \<and> map_Result now' f (failure c) = failure c
   \<and> cause (map_Result now' f (Failure c)) = c"
  by (simp add: map_Result_def success_def failure_def split: option.split)

text \<open>
  Claim C9. For every exit and every optional previous result, \<open>fromExitWithPrevious\<close>
  returns what \<open>fromExit\<close> returns on the same exit (at the same clock reading): the
  previous result has no effect.
\<close>

theorem fromExitWithPrevious_eq_fromExit:
  "fromExitWithPrevious now ex previous = fromExit now ex"
  by (simp add: fromExitWithPrevious_def fromExit_def)

text \<open>
  Claim C6. On a success, \<open>getOrElse\<close> returns the value and leaves the world as it was,
  whatever the fallback would do: the fallback is not evaluated. On a failure it returns
  what the fallback returns, with the fallback's effect.
\<close>

theorem getOrElse_spec:
  "getOrElse (Success a t) fallback s = (a, s)
   \<and> getOrElse (success now a options) fallback s = (a, s)
   \<and> getOrElse (Failure c) fallback s = fallback s
   \<and> getOrElse (failure c) fallback s = fallback s"
  by (simp add: getOrElse_def value_of_def success_def failure_def)

text \<open>
  Claim C10, as amended. The equality of results never reads the timestamp: two successes
  are equal exactly when \<open>Equal.equals\<close> holds of their values, two failures exactly when
  it holds of their causes, and results of different tags are unequal. So the success of
  \<open>a\<close> at timestamp \<open>t1\<close> equals the success of \<open>a\<close> at timestamp \<open>t2\<close> exactly when
  \<open>Equal.equals\<close> finds \<open>a\<close> equal to itself: for every such value the two are equal,
  whatever the timestamps.
\<close>

theorem equals_Result_ignores_timestamp:
  "equals_Result eqv eqc (Success a t1) (Success b t2) = eqv a b
   \<and> equals_Result eqv eqc (Failure c) (Failure d) = eqc c d
   \<and> equals_Result eqv eqc (Success a t1) (Failure d) = False
   \<and> equals_Result eqv eqc (Failure c) (Success b t2) = False
   \<and> (eqv a a \<longrightarrow>
        equals_Result eqv eqc (success now1 a (Some t1)) (success now2 a (Some t2)))
   \<and> equals_Result eqv eqc (success now1 a (Some t1)) (success now2 a (Some t2)) = eqv a a"
  by (simp add: equals_Result_def tag_of_def success_def)

text \<open>
  The witness of claim C10: the number 1 equals itself, and its successes at the
  timestamps 10 and 20 are equal.
\<close>

theorem equals_Result_ignores_timestamp_witness:
  "equals_number (Finite 1) (Finite 1) \<and>
   equals_Result equals_number (=) (success 0 (Finite 1) (Some 10))
     (success 0 (Finite 1) (Some 20) :: (number, string) result)"
  using equals_Result_ignores_timestamp
    [of equals_number "(=)" "Finite 1" 10 "Finite 1" 20 "''c''" "''d''" 0 0]
  by (simp add: equals_number_def)

text \<open>
  The counterexample to claim C10 as it is stated: the successes of \<open>NaN\<close> at the
  timestamps 10 and 20 are not equal.
\<close>

theorem equals_Result_NaN_counterexample:
  "\<not> equals_Result equals_number (=) (success 0 NaN (Some 10))
       (success 0 NaN (Some 20) :: (number, string) result)"
  by (simp add: equals_Result_def tag_of_def success_def equals_number_def)

section \<open>Properties of causes\<close>

lemma isInterruptedOnly_iff:
  "isInterruptedOnly c \<longleftrightarrow> failures c = [] \<and> defects c = []"
  by (induction c) auto

lemma failureOption_None_iff: "failureOption c = None \<longleftrightarrow> failures c = []"
  by (induction c) (auto split: option.splits)

lemma dieOption_None_iff: "dieOption c = None \<longleftrightarrow> defects c = []"
  by (induction c) (auto split: option.splits)

text \<open>
  Claim C5. \<open>isInterrupted\<close> holds of a result exactly when it is a failure whose cause
  holds no typed error and no defect, so that the cause is made of interruptions (and
  empty causes) only; equivalently, when neither a first typed failure nor a first defect
  can be extracted. It is false of every success, and of every failure whose cause
  contains a typed failure or a defect.
\<close>

theorem isInterrupted_iff:
  "(isInterrupted r \<longleftrightarrow> (\<exists>c. r = Failure c \<and> failures c = [] \<and> defects c = []))
   \<and> (isInterrupted r \<longleftrightarrow>
        (\<exists>c. r = Failure c \<and> failureOption c = None \<and> dieOption c = None))
   \<and> isInterrupted (Success a t) = False
   \<and> isInterrupted (Failure c') = (failures c' = [] \<and> defects c' = [])"
  by (cases r)
     (simp_all add: isInterrupted_def tag_of_def isInterruptedOnly_iff
        failureOption_None_iff dieOption_None_iff)

section \<open>Properties of \<open>all\<close>\<close>

lemma update_fresh: "k \<notin> fst ` set al \<Longrightarrow> AList.update k v al = al @ [(k, v)]"
  by (induction al) auto

lemma assign_fresh:
  "k \<noteq> Name ''__proto__'' \<Longrightarrow> k \<notin> fst ` set (props acc) \<Longrightarrow>
   assign isObj acc k v = Collection (is_array acc) (proto acc) (props acc @ [(k, v)])"
  by (simp add: assign_def update_fresh)

lemma all_loop_failure:
  "first_failure (map snd es) = Some c \<Longrightarrow> all_loop isObj now es acc = Failure c"
proof (induction es arbitrary: acc)
  case Nil
  then show ?case by simp
next
  case (Cons ke es)
  obtain k e where ke: "ke = (k, e)" by (cases ke)
  show ?case
  proof (cases e)
    case (Plain v)
    then show ?thesis using Cons ke by simp
  next
    case (IsResult r)
    then show ?thesis using Cons ke by (cases r) simp_all
  qed
qed

text \<open>
  Without a failure, and over distinct keys other than \<open>__proto__\<close> that the collection
  does not hold yet, the loop appends the values of the entries in their order.
\<close>

lemma all_loop_success:
  "first_failure (map snd es) = None \<Longrightarrow> distinct (map fst es) \<Longrightarrow>
   Name ''__proto__'' \<notin> fst ` set es \<Longrightarrow>
   fst ` set es \<inter> fst ` set (props acc) = {} \<Longrightarrow>
   all_loop isObj now es acc
     = Success (Collection (is_array acc) (proto acc) (props acc @ values_of es)) now"
proof (induction es arbitrary: acc)
  case Nil
  then show ?case by (simp add: success_def)
next
  case (Cons ke es)
  obtain k e where ke: "ke = (k, e)" by (cases ke)
  have k: "k \<noteq> Name ''__proto__''" "k \<notin> fst ` set (props acc)"
    using Cons.prems(3,4) ke by auto
  have rest: "distinct (map fst es)" "k \<notin> fst ` set es"
    "Name ''__proto__'' \<notin> fst ` set es"
    using Cons.prems(2,3) ke by auto
  have step: "assign isObj acc k v
      = Collection (is_array acc) (proto acc) (props acc @ [(k, v)])" for v
    by (rule assign_fresh [OF k])
  have disj: "fst ` set es \<inter> fst ` set (props (assign isObj acc k v)) = {}" for v
    using Cons.prems(4) rest(2) by (auto simp: step)
  show ?case
  proof (cases e)
    case (Plain v)
    have "first_failure (map snd es) = None" using Cons.prems(1) ke Plain by simp
    from Cons.IH [OF this rest(1) rest(3) disj [of v]] show ?thesis
      using ke Plain by (simp add: step)
  next
    case (IsResult r)
    show ?thesis
    proof (cases r)
      case (Failure c)
      then show ?thesis using Cons.prems(1) ke IsResult by simp
    next
      case (Success v t)
      have "first_failure (map snd es) = None"
        using Cons.prems(1) ke IsResult Success by simp
      from Cons.IH [OF this rest(1) rest(3) disj [of v]] show ?thesis
        using ke IsResult Success by (simp add: step)
    qed
  qed
qed

lemma map_fst_keyed: "map fst (map (\<lambda>(k, r). (g k, r)) kvs) = map g (map fst kvs)"
  by (induction kvs) auto

lemma map_snd_keyed: "map snd (map (\<lambda>(k, r). (g k, r)) kvs) = map snd kvs"
  by (induction kvs) auto

lemma no_failure:
  "list_all2 (\<lambda>e v. entry_value e = Some v) xs vs \<Longrightarrow> first_failure xs = None"
proof (induction xs vs rule: list_all2_induct)
  case Nil
  then show ?case by simp
next
  case (Cons e xs v vs)
  then show ?case by (cases e rule: entry_value.cases) simp_all
qed

lemma values_of_enumerate:
  "list_all2 (\<lambda>e v. entry_value e = Some v) xs vs \<Longrightarrow>
   values_of (map (\<lambda>(i, r). (Index i, r)) (List.enumerate n xs))
     = map (\<lambda>(i, x). (Index i, x)) (List.enumerate n vs)"
proof (induction xs vs arbitrary: n rule: list_all2_induct)
  case Nil
  then show ?case by simp
next
  case (Cons e xs v vs)
  then show ?case by simp
qed

lemma values_of_named:
  "list_all2 (\<lambda>(k, e) (k', v). k' = k \<and> entry_value e = Some v) kvs kvs' \<Longrightarrow>
   values_of (map (\<lambda>(k, r). (Name k, r)) kvs) = map (\<lambda>(k, x). (Name k, x)) kvs'"
proof (induction kvs kvs' rule: list_all2_induct)
  case Nil
  then show ?case by simp
next
  case (Cons ke kvs kv kvs')
  then show ?case by (cases ke; cases kv) simp
qed

lemma no_failure_named:
  "list_all2 (\<lambda>(k, e) (k', v). k' = k \<and> entry_value e = Some v) kvs kvs' \<Longrightarrow>
   list_all2 (\<lambda>e v. entry_value e = Some v) (map snd kvs) (map snd kvs')"
proof (induction kvs kvs' rule: list_all2_induct)
  case Nil
  then show ?case by simp
next
  case (Cons ke kvs kv kvs')
  then show ?case by (cases ke; cases kv) simp
qed

text \<open>
  Whatever the keys: when some entry is a failure, \<open>all\<close> returns the first failure in
  the order of the sequence, or of the record's entries.
\<close>

lemma all_results_failure:
  "first_failure xs = Some c \<Longrightarrow> all_results isObj now (Iterable xs) = Failure c"
  "first_failure (map snd kvs) = Some c \<Longrightarrow> all_results isObj now (Record kvs) = Failure c"
proof -
  assume "first_failure xs = Some c"
  then have "first_failure (map snd (entries_of (Iterable xs))) = Some c"
    by (simp only: entries_of_def arg.case map_snd_keyed map_snd_enumerate)
  then show "all_results isObj now (Iterable xs) = Failure c"
    by (simp add: all_results_def all_loop_failure)
next
  assume "first_failure (map snd kvs) = Some c"
  then have "first_failure (map snd (entries_of (Record kvs))) = Some c"
    by (simp only: entries_of_def arg.case map_snd_keyed)
  then show "all_results isObj now (Record kvs) = Failure c"
    by (simp add: all_results_def all_loop_failure)
qed

text \<open>
  A sequence without a failure gives the success of the array of the values, in order.
\<close>

lemma all_results_sequence:
  assumes "list_all2 (\<lambda>e v. entry_value e = Some v) xs vs"
  shows "all_results isObj now (Iterable xs) = Success (js_array vs) now"
proof -
  let ?es = "map (\<lambda>(i, r). (Index i, r)) (List.enumerate 0 xs)"
  have m: "map fst ?es = map Index [0..<length xs]"
    by (simp only: map_fst_keyed map_fst_enumerate add_0)
  have d: "distinct (map fst ?es)"
    by (simp only: m) (simp add: distinct_map inj_on_def)
  have "fst ` set ?es = Index ` set [0..<length xs]"
    using m by (metis set_map)
  then have p: "Name ''__proto__'' \<notin> fst ` set ?es"
    by auto
  have f: "first_failure (map snd ?es) = None"
    using no_failure [OF assms] by (simp only: map_snd_keyed map_snd_enumerate)
  have "all_loop isObj now ?es (Collection True None [])
      = Success (Collection True None (values_of ?es)) now"
    using all_loop_success [OF f d p, of "Collection True None []" isObj now] by simp
  then show ?thesis
    by (simp add: all_results_def isIterable_def entries_of_def js_array_def
        values_of_enumerate [OF assms])
qed

text \<open>
  A record without a failure, whose keys are distinct and other than \<open>__proto__\<close>, gives
  the success of the object with the same keys in the same order, each with the value of
  its entry.
\<close>

lemma all_results_record:
  assumes "distinct (map fst kvs)" and "''__proto__'' \<notin> fst ` set kvs"
    and "list_all2 (\<lambda>(k, e) (k', v). k' = k \<and> entry_value e = Some v) kvs kvs'"
  shows "all_results isObj now (Record kvs) = Success (js_object kvs') now"
proof -
  let ?es = "map (\<lambda>(k, r). (Name k, r)) kvs"
  have m: "map fst ?es = map Name (map fst kvs)"
    by (simp only: map_fst_keyed)
  have d: "distinct (map fst ?es)"
    using assms(1) by (simp only: m) (simp add: distinct_map inj_on_def del: map_map)
  have "fst ` set ?es = Name ` fst ` set kvs"
    using m by (metis set_map)
  then have p: "Name ''__proto__'' \<notin> fst ` set ?es"
    using assms(2) by auto
  have f: "first_failure (map snd ?es) = None"
    using no_failure [OF no_failure_named [OF assms(3)]] by (simp only: map_snd_keyed)
  have "all_loop isObj now ?es (Collection False None [])
      = Success (Collection False None (values_of ?es)) now"
    using all_loop_success [OF f d p, of "Collection False None []" isObj now] by simp
  then show ?thesis
    by (simp add: all_results_def isIterable_def entries_of_def js_object_def
        values_of_named [OF assms(3)])
qed

text \<open>The examples of the specification, whatever the timestamps.\<close>

lemma all_results_examples:
  "all_results isObj now (Iterable [IsResult (Success (1::int) t1), IsResult (Success 2 t2)])
     = success now (js_array [1, 2]) None"
  "all_results isObj now
     (Iterable [IsResult (Success a t1), IsResult (Failure c), IsResult (Success b t2)])
     = failure c"
  "all_results isObj now (Iterable [IsResult (Failure c1), IsResult (Failure c2)])
     = failure c1"
  "all_results isObj now (Record [(''a'', IsResult (Success (1::int) t1)), (''b'', Plain 2)])
     = success now (js_object [(''a'', 1), (''b'', 2)]) None"
  by (simp_all add: all_results_def isIterable_def entries_of_def assign_def
      success_def failure_def js_array_def js_object_def)

text \<open>
  Claim C1 fails on the code at a record that has \<open>__proto__\<close> among its own keys (as
  \<open>JSON.parse\<close> gives for the text \<open>{"__proto__": 1, "a": 2}\<close>, and likewise with a result
  or an object under that key). No entry is a failure, so the claim asks for the success
  of an object with the keys \<open>__proto__\<close> and \<open>a\<close>. The code returns the success of an
  object whose only own key is \<open>a\<close>: the number under \<open>__proto__\<close> is dropped, so is the
  value of a successful result under it, and an object under it becomes the prototype of
  the returned object.
\<close>

theorem all_results_proto_key:
  "all_results isObjectOrNull 30
     (Record [(''__proto__'', Plain (JNumber 1)), (''a'', Plain (JNumber 2))]
        :: (js_value, string) arg)
     = Success (Collection False None [(Name ''a'', JNumber 2)]) 30
   \<and> all_results isObjectOrNull 30
     (Record [(''__proto__'', IsResult (Success (JNumber 1) 10)),
              (''a'', IsResult (Success (JNumber 2) 20))] :: (js_value, string) arg)
     = Success (Collection False None [(Name ''a'', JNumber 2)]) 30
   \<and> all_results isObjectOrNull 30
     (Record [(''__proto__'', Plain (JObject [(''x'', 1)])), (''a'', Plain (JNumber 2))]
        :: (js_value, string) arg)
     = Success (Collection False (Some (JObject [(''x'', 1)])) [(Name ''a'', JNumber 2)]) 30
   \<and> js_object [(''__proto__'', JNumber 1), (''a'', JNumber 2)]
     = Collection False None [(Name ''__proto__'', JNumber 1), (Name ''a'', JNumber 2)]
   \<and> all_results isObjectOrNull 30
     (Record [(''__proto__'', Plain (JNumber 1)), (''a'', Plain (JNumber 2))]
        :: (js_value, string) arg)
     \<noteq> Success (js_object [(''__proto__'', JNumber 1), (''a'', JNumber 2)]) 30"
  by (simp add: all_results_def isIterable_def entries_of_def assign_def success_def
      js_object_def)

section \<open>Properties of the builder\<close>

lemma builder_fields: "output_slot (builder r) = None" "result (builder r) = r"
  by (simp_all add: builder_def)

lemma when_clause_captured:
  "output_slot b = Some v \<Longrightarrow> when_clause p f (b, s) = (b, s)"
  by (simp add: when_clause_def)

lemma when_clause_fires:
  "output_slot b = None \<Longrightarrow> p (result b) \<Longrightarrow> f (result b) s = (Some v, s') \<Longrightarrow>
   when_clause p f (b, s) = (b\<lparr>output_slot := Some v\<rparr>, s')"
  by (simp add: when_clause_def)

lemma clauses_captured:
  assumes "output_slot b = Some v"
  shows "onSuccess hs (b, s) = (b, s)" and "onFailure hf (b, s) = (b, s)"
  using assms
  by (simp_all add: onSuccess_def onFailure_def when_clause_captured)

lemma error_clauses_captured:
  assumes "output_slot b = Some v"
  shows "onErrorIf q he (b, s) = (b, s)" and "onError he (b, s) = (b, s)"
    and "onDefect hdef (b, s) = (b, s)"
  using assms
  by (simp_all add: onErrorIf_def onError_def onDefect_def when_clause_captured)

lemma onError_typed:
  "failureOption c = Some e \<Longrightarrow>
   onError h (builder (Failure c), s) =
     (\<lparr>result = Failure c, output_slot = Some (fst (h e (Failure c) s))\<rparr>,
      snd (h e (Failure c) s))"
  by (simp add: onError_def onErrorIf_def when_clause_def builder_def isFailure_def tag_of_def
      Option_filter_def split: prod.splits)

lemma onError_untyped:
  "failureOption c = None \<Longrightarrow> onError h (builder (Failure c), s) = (builder (Failure c), s)"
  by (simp add: onError_def onErrorIf_def when_clause_def builder_def isFailure_def tag_of_def
      Option_filter_def)

lemma chain_typed:
  assumes "failureOption c = Some e"
  shows "orElse (onError hb (onError ha (builder (Failure c), s))) hc = ha e (Failure c) s"
proof -
  obtain v s' where h: "ha e (Failure c) s = (v, s')"
    by (cases "ha e (Failure c) s")
  have "onError ha (builder (Failure c), s)
      = (\<lparr>result = Failure c, output_slot = Some v\<rparr>, s')"
    using onError_typed [OF assms, of ha s] h by simp
  moreover have "onError hb (\<lparr>result = Failure c, output_slot = Some v\<rparr>, s')
      = (\<lparr>result = Failure c, output_slot = Some v\<rparr>, s')"
    by (rule error_clauses_captured) simp
  ultimately show ?thesis
    by (simp add: orElse_def h)
qed

lemma chain_untyped:
  assumes "failureOption c = None"
  shows "orElse (onError hb (onError ha (builder (Failure c), s))) hc = hc s"
  by (simp add: onError_untyped [OF assms] orElse_def builder_fields)

text \<open>
  Claim C2, as amended. The slot of a new builder is empty. A clause whose condition
  matches while the slot is empty captures the output of its handler; once the slot is
  set, every clause (\<open>when\<close>, \<open>onSuccess\<close>, \<open>onFailure\<close>, \<open>onErrorIf\<close>, \<open>onError\<close>,
  \<open>onDefect\<close>) leaves the builder and the world as they are, so it invokes no handler and
  the slot is set at most once. In particular, for every failure whose cause yields a
  typed error \<open>e\<close>, the chain \<open>builder(r).onError(ha).onError(hb).orElse(hc)\<close> returns
  what \<open>ha\<close> returns on \<open>e\<close>, with the effect of \<open>ha\<close> alone: \<open>hb\<close> and \<open>hc\<close> are not
  invoked. For a failure whose cause yields no typed error, the chain is \<open>hc()\<close>: neither
  \<open>ha\<close> nor \<open>hb\<close> is invoked.
\<close>

theorem builder_first_match_wins:
  fixes b :: "('a, ('e, 'd) cause, 'out) BuilderImpl"
    and ha hb :: "'e \<Rightarrow> ('a, ('e, 'd) cause) result \<Rightarrow> 's \<Rightarrow> 'out \<times> 's"
    and s :: 's
  shows
  "output_slot (builder r :: ('a, ('e, 'd) cause, 'out) BuilderImpl) = None
   \<and> (output_slot b = None \<longrightarrow> p (result b) \<longrightarrow> f (result b) s = (Some v, s') \<longrightarrow>
        when_clause p f (b, s) = (b\<lparr>output_slot := Some v\<rparr>, s'))
   \<and> (output_slot b = Some v \<longrightarrow>
        when_clause p f (b, s) = (b, s) \<and> onSuccess hs (b, s) = (b, s)
        \<and> onFailure hf (b, s) = (b, s) \<and> onErrorIf q ha (b, s) = (b, s)
        \<and> onError ha (b, s) = (b, s) \<and> onDefect hdef (b, s) = (b, s))
   \<and> (failureOption c = Some e \<longrightarrow>
        orElse (onError hb (onError ha (builder (Failure c), s))) hc = ha e (Failure c) s)
   \<and> (failureOption c = None \<longrightarrow>
        orElse (onError hb (onError ha (builder (Failure c), s))) hc = hc s)"
  by (simp add: builder_fields when_clause_captured when_clause_fires clauses_captured
      error_clauses_captured chain_typed chain_untyped)

text \<open>
  The witness of claim C2, with handlers that log their invocation: on a failure with the
  typed error \<open>NotFound\<close> the log of the chain holds \<open>ha\<close> alone; on an interruption it
  holds \<open>hc\<close> alone; a clause on a set slot changes nothing; a clause on an empty slot
  captures.
\<close>

theorem builder_first_match_wins_witness:
  "output_slot \<lparr>result = Failure (Fail ''NotFound'') :: (int, (string, string) cause) result,
                output_slot = Some (0::int)\<rparr> = Some 0
   \<and> onError (logging ''ha'' 1)
        (\<lparr>result = Failure (Fail ''NotFound'') :: (int, (string, string) cause) result,
          output_slot = Some (0::int)\<rparr>, [])
       = (\<lparr>result = Failure (Fail ''NotFound''), output_slot = Some 0\<rparr>, [])
   \<and> output_slot (builder (Failure (Fail ''NotFound''))
        :: (int, (string, string) cause, int) BuilderImpl) = None
   \<and> isFailure (result (builder (Failure (Fail ''NotFound''))
        :: (int, (string, string) cause, int) BuilderImpl))
   \<and> capturing ''ha'' (1::int) (result (builder (Failure (Fail ''NotFound''))
        :: (int, (string, string) cause, int) BuilderImpl)) [] = (Some 1, [''ha''])
   \<and> when_clause isFailure (capturing ''ha'' 1)
        (builder (Failure (Fail ''NotFound'')) :: (int, (string, string) cause, int) BuilderImpl, [])
       = (\<lparr>result = Failure (Fail ''NotFound''), output_slot = Some 1\<rparr>, [''ha''])
   \<and> failureOption (Fail ''NotFound'' :: (string, string) cause) = Some ''NotFound''
   \<and> orElse (onError (logging ''hb'' 2)
        (onError (logging ''ha'' 1)
           (builder (Failure (Fail ''NotFound'') :: (int, (string, string) cause) result), [])))
        (logging_thunk ''hc'' 3) = (1::int, [''ha''])
   \<and> failureOption (Interrupt :: (string, string) cause) = None
   \<and> orElse (onError (logging ''hb'' 2)
        (onError (logging ''ha'' 1)
           (builder (Failure Interrupt :: (int, (string, string) cause) result), [])))
        (logging_thunk ''hc'' 3) = (3::int, [''hc''])"
  using builder_first_match_wins
    [where b = "\<lparr>result = Failure (Fail ''NotFound'') :: (int, (string, string) cause) result,
                  output_slot = Some (0::int)\<rparr>"
       and v = 0 and s = "[]" and c = "Fail ''NotFound''" and e = "''NotFound''"
       and ha = "logging ''ha'' 1" and hb = "logging ''hb'' 2"
       and hc = "logging_thunk ''hc'' 3"]
    builder_first_match_wins
    [where b = "builder (Failure (Fail ''NotFound''))
                  :: (int, (string, string) cause, int) BuilderImpl"
       and v = 1 and s = "[]" and s' = "[''ha'']" and p = isFailure
       and f = "capturing ''ha'' 1" and c = "Interrupt"
       and ha = "logging ''ha'' 1" and hb = "logging ''hb'' 2"
       and hc = "logging_thunk ''hc'' 3"]
  by (simp add: logging_def logging_thunk_def capturing_def builder_def isFailure_def tag_of_def)

text \<open>
  The counterexample to claim C2 as it is stated: on the failure whose cause is a defect,
  the chain invokes neither \<open>ha\<close> nor \<open>hb\<close> and does invoke \<open>hc\<close>; the log holds \<open>hc\<close>
  alone and the output is that of \<open>hc\<close>.
\<close>

theorem onError_chain_counterexample:
  "orElse (onError (logging ''hb'' 2)
        (onError (logging ''ha'' 1)
           (builder (Failure (Die ''boom'') :: (int, (string, string) cause) result), [])))
        (logging_thunk ''hc'' 3) = (3::int, [''hc''])"
  by (simp add: onError_def onErrorIf_def when_clause_def builder_def isFailure_def tag_of_def
      Option_filter_def orElse_def logging_thunk_def)

text \<open>
  Claim C3. \<open>render\<close> returns the captured output when the slot is set. With an empty
  slot it throws on a failure, and what it throws is \<open>Cause.squash\<close> of the cause of the
  result the builder was made from; on a success it returns \<open>null\<close>. So it does on a new
  builder, on which no clause has fired.
\<close>

theorem render_spec:
  "(output_slot b = Some v \<longrightarrow> render squash b = Inr (Some v))
   \<and> (output_slot b = None \<longrightarrow> result b = Failure c \<longrightarrow> render squash b = Inl (squash c))
   \<and> (output_slot b = None \<longrightarrow> result b = Success a t \<longrightarrow> render squash b = Inr None)
   \<and> render squash (builder (Failure c)) = Inl (squash c)
   \<and> render squash (builder (Success a t)) = Inr None"
  by (simp add: render_def builder_def isFailure_def tag_of_def)

text \<open>
  The witness of claim C3; the length of the cause stands for \<open>Cause.squash\<close>.
\<close>

theorem render_spec_witness:
  "output_slot \<lparr>result = Failure ''c'' :: (int, string) result, output_slot = Some (1::int)\<rparr>
     = Some 1
   \<and> render length \<lparr>result = Failure ''c'' :: (int, string) result, output_slot = Some (1::int)\<rparr>
       = Inr (Some 1)
   \<and> output_slot (builder (Failure ''c'' :: (int, string) result) :: (int, string, int) BuilderImpl)
       = None
   \<and> render length (builder (Failure ''c'' :: (int, string) result) :: (int, string, int) BuilderImpl)
       = Inl 1
   \<and> render length (builder (Success 5 0 :: (int, string) result) :: (int, string, int) BuilderImpl)
       = Inr None"
  using render_spec
      [of "\<lparr>result = Failure ''c'' :: (int, string) result, output_slot = Some (1::int)\<rparr>"
          1 length "''c''" 5 0]
    render_spec
      [of "builder (Failure ''c'' :: (int, string) result) :: (int, string, int) BuilderImpl"
          1 length "''c''" 5 0]
    render_spec
      [of "builder (Success 5 0 :: (int, string) result) :: (int, string, int) BuilderImpl"
          1 length "''c''" 5 0]
  by (simp add: builder_def)

section \<open>Properties of the schema\<close>






section \<open>Properties of the client's shared runtime\<close>

lemma getRuntime_new:
  "getRuntime new_client = (0, \<lparr>runtimePromise = Some 0, promises = [Pending]\<rparr>)"
  by (simp add: getRuntime_def new_client_def)

lemma getRuntime_started: "started st \<Longrightarrow> getRuntime st = (0, st)"
  by (simp add: getRuntime_def started_def)

lemma settle_new: "settle p outcome new_client = new_client"
  by (simp add: settle_def new_client_def)

lemma settle_started: "started st \<Longrightarrow> started (settle p outcome st)"
  by (simp add: settle_def started_def)

lemma settle_rejected:
  "promises st = [Rejected x] \<Longrightarrow> settle p outcome st = st"
  by (cases p) (simp_all add: settle_def)

lemma run_Call:
  "run (Call # evs) st =
     (fst (getRuntime st) # fst (run evs (snd (getRuntime st))),
      snd (run evs (snd (getRuntime st))))"
  by (simp split: prod.splits)

lemma run_started:
  "started st \<Longrightarrow> set (fst (run evs st)) \<subseteq> {0} \<and> started (snd (run evs st))"
proof (induction evs arbitrary: st)
  case Nil
  then show ?case by simp
next
  case (Cons ev evs)
  show ?case
  proof (cases ev)
    case Call
    then show ?thesis
      using Cons.IH [OF Cons.prems] getRuntime_started [OF Cons.prems]
      by (simp only: run_Call) simp
  next
    case (Settle p outcome)
    then show ?thesis
      using Cons.IH [OF settle_started [OF Cons.prems, of p outcome]] by simp
  qed
qed

lemma started_after_first:
  "started \<lparr>runtimePromise = Some 0, promises = [Pending] :: ('rt, 'x) promise list\<rparr>"
  by (simp add: started_def)

lemma run_new:
  "set (fst (run evs new_client)) \<subseteq> {0}
   \<and> (snd (run evs new_client) = new_client \<or> started (snd (run evs new_client)))"
proof (induction evs)
  case Nil
  then show ?case by simp
next
  case (Cons ev evs)
  show ?case
  proof (cases ev)
    case Call
    then show ?thesis
      using run_started [OF started_after_first, of evs]
      by (simp only: run_Call getRuntime_new) simp
  next
    case (Settle p outcome)
    then show ?thesis
      using Cons.IH by (simp add: settle_new)
  qed
qed

lemma run_rejected:
  assumes "runtimePromise st = Some 0" and "promises st = [Rejected x]"
  shows "run evs st = (replicate (calls evs) 0, st)"
proof (induction evs)
  case Nil
  then show ?case by (simp add: calls_def)
next
  case (Cons ev evs)
  show ?case
  proof (cases ev)
    case Call
    then show ?thesis
      using Cons.IH assms by (simp add: getRuntime_def calls_def)
  next
    case (Settle p outcome)
    then show ?thesis
      using Cons.IH assms by (simp add: settle_rejected calls_def)
  qed
qed

text \<open>
  Claim C8, as amended. For every client and every sequence of calls and settlements, the
  initialization is started at most once (the store holds at most one promise) and every
  call of \<open>getRuntime\<close> returns that one promise, so that all callers observe the same
  outcome. Once the promise is rejected it stays the cached promise: whatever happens
  next, every later call returns the same rejected promise and the state does not change,
  so no later call starts the initialization again.
\<close>

theorem getRuntime_single_flight:
  "length (promises (snd (run evs new_client))) \<le> 1
   \<and> set (fst (run evs new_client)) \<subseteq> {0}
   \<and> (promises (snd (run evs new_client)) = [Rejected x] \<longrightarrow>
        run evs' (snd (run evs new_client))
          = (replicate (calls evs') 0, snd (run evs new_client)))"
proof (intro conjI impI)
  show "length (promises (snd (run evs new_client))) \<le> 1"
    using run_new [of evs] by (auto simp: started_def new_client_def)
  show "set (fst (run evs new_client)) \<subseteq> {0}"
    using run_new [of evs] by simp
next
  assume r: "promises (snd (run evs new_client)) = [Rejected x]"
  then have "started (snd (run evs new_client))"
    using run_new [of evs] by (auto simp: new_client_def)
  then have "runtimePromise (snd (run evs new_client)) = Some 0"
    by (simp add: started_def)
  from run_rejected [OF this r]
  show "run evs' (snd (run evs new_client))
          = (replicate (calls evs') 0, snd (run evs new_client))" .
qed

text \<open>
  The witness of claim C8: two callers arrive before the initialization fails; both hold
  promise 0, which is rejected; two later calls get the same rejected promise.
\<close>

theorem getRuntime_single_flight_witness:
  "promises (snd (run [Call, Call, Settle 0 (Rejected ''init failed'')]
                   (new_client :: (unit, string) client))) = [Rejected ''init failed'']
   \<and> fst (run [Call, Call, Settle 0 (Rejected ''init failed'')]
                   (new_client :: (unit, string) client)) = [0, 0]
   \<and> run [Call, Settle 0 (Fulfilled ()), Call]
          (snd (run [Call, Call, Settle 0 (Rejected ''init failed'')]
                   (new_client :: (unit, string) client)))
      = ([0, 0], \<lparr>runtimePromise = Some 0, promises = [Rejected ''init failed'']\<rparr>)"
  using getRuntime_single_flight
    [of "[Call, Call, Settle 0 (Rejected ''init failed'')] :: (unit, string) event list"
        "''init failed''" "[Call, Settle 0 (Fulfilled ()), Call]"]
  by (simp add: getRuntime_def new_client_def settle_def calls_def)

text \<open>
  The counterexample to claim C8 as it is stated: after a call whose initialization
  failed, a later call does not retry. It returns promise 0 again, the store still holds
  that one promise, and the promise is still rejected.
\<close>

theorem getRuntime_retry_counterexample:
  "run [Call, Settle 0 (Rejected ''init failed''), Call] (new_client :: (unit, string) client)
   = ([0, 0], \<lparr>runtimePromise = Some 0, promises = [Rejected ''init failed'']\<rparr>)"
  by (simp add: getRuntime_def new_client_def settle_def)

end
